theory Spec2Isabelle
  imports Main "HOL-Library.Sublist"
begin

section \<open>Errors\<close>

text \<open>
  Every C++ exception that the modelled code can raise or propagate is a value of
  this type; a function that may throw returns \<open>error + 'a\<close> with \<open>Inl\<close> the
  exception. \<open>RuntimeError\<close> is \<open>std::runtime_error\<close> with its message; the other
  constructors are the error kinds named by the specification's taxonomy.
\<close>

datatype error =
    RuntimeError string
  | NotFound string
  | UnknownRuntime string
  | ArityMismatch
  | InvocationError string
  | ConstructionFailure string
  | NullImpl string

section \<open>The ONNX frontend (src/pyxir/frontend/onnx.cpp)\<close>

subsection \<open>Process state seen by the import functions\<close>

text \<open>
  Modelled from the spec: the XGraph class (pyxir/graph/xgraph.hpp is not among the
  sources). The import functions only construct one from a name; the importer fills
  in the rest, kept here as a list of layer names.
\<close>

record XGraph =
  name :: string
  layers :: "string list"

definition XGraph_new :: "string \<Rightarrow> XGraph" where
  "XGraph_new n = \<lparr>name = n, layers = []\<rparr>"

text \<open>
  A \<open>std::shared_ptr<XGraph>\<close> is a handle: the index of the graph object in the
  list of all graph objects allocated so far. Deallocation is not modelled.
\<close>

type_synonym XGraphHolder = nat
type_synonym graph_heap = "XGraph list"

text \<open>
  An opaque function is called with a positional list of type-erased arguments.
  The two argument kinds that onnx.cpp passes are a graph handle and a string.
  A callable may change the graph objects (it populates the graph in place) and
  may throw; it is given the graph objects and returns them as it leaves them, or
  the exception. Callables that register or remove opaque functions are outside
  this model: the registry is the same before and after a call.
\<close>

datatype OpaqueValue = OpaqueXGraph XGraphHolder | OpaqueStr string

type_synonym OpaqueFunc = "OpaqueValue list \<Rightarrow> graph_heap \<Rightarrow> error + graph_heap"

text \<open>
  The calls an import function makes on its collaborators, in program order. The
  log is instrumentation: it lets a theorem say which collaborator calls happened,
  how often and with which arguments.
\<close>

datatype event =
    Exists_call string
  | Get_call string
  | Make_shared XGraphHolder string
  | Invoke string "OpaqueValue list"

record process =
  opaque_funcs :: "string \<rightharpoonup> OpaqueFunc"
  graphs :: graph_heap
  calls :: "event list"

definition log_call :: "event \<Rightarrow> process \<Rightarrow> process" where
  "log_call e p = p\<lparr>calls := calls p @ [e]\<rparr>"

text \<open>
  Modelled from the spec: \<open>OpaqueFuncRegistry::Exists\<close> and \<open>OpaqueFuncRegistry::Get\<close>
  (pyxir/opaque_func_registry.hpp is not among the sources). \<open>Exists\<close> is a pure
  query; \<open>Get\<close> fails with \<open>NotFound\<close> if no entry exists.
\<close>

definition OpaqueFuncRegistry_Exists :: "string \<Rightarrow> process \<Rightarrow> bool \<times> process" where
  "OpaqueFuncRegistry_Exists key p =
     (opaque_funcs p key \<noteq> None, log_call (Exists_call key) p)"

definition OpaqueFuncRegistry_Get :: "string \<Rightarrow> process \<Rightarrow> (error + OpaqueFunc) \<times> process" where
  "OpaqueFuncRegistry_Get key p =
     (case opaque_funcs p key of
        None \<Rightarrow> (Inl (NotFound key), log_call (Get_call key) p)
      | Some f \<Rightarrow> (Inr f, log_call (Get_call key) p))"

text \<open>\<open>std::make_shared<XGraph>(n)\<close>: a new graph object at a fresh handle.\<close>

definition make_shared_XGraph :: "string \<Rightarrow> process \<Rightarrow> XGraphHolder \<times> process" where
  "make_shared_XGraph n p =
     (length (graphs p),
      log_call (Make_shared (length (graphs p)) n) (p\<lparr>graphs := graphs p @ [XGraph_new n]\<rparr>))"

text \<open>
  Calling the opaque function fetched under \<open>key\<close> with \<open>args\<close>. The call is
  logged whether the callable returns or throws. The model keeps no effect on the
  graph objects of a call that throws.
\<close>

definition invoke :: "string \<Rightarrow> OpaqueFunc \<Rightarrow> OpaqueValue list \<Rightarrow> process \<Rightarrow> (error + unit) \<times> process" where
  "invoke key f args p =
     (case f args (graphs p) of
        Inl e \<Rightarrow> (Inl e, log_call (Invoke key args) p)
      | Inr g \<Rightarrow> (Inr (), log_call (Invoke key args) (p\<lparr>graphs := g\<rparr>)))"

subsection \<open>The two import entry points\<close>

definition from_onnx_key :: string where
  "from_onnx_key = ''pyxir.onnx.from_onnx''"

definition from_onnx_bytes_key :: string where
  "from_onnx_bytes_key = ''pyxir.onnx.from_onnx_bytes''"

definition from_onnx_missing :: string where
  "from_onnx_missing =
     ''Cannot import ONNX model from file because'' @
     '' `pyxir.onnx.from_onnx` opaque function is'' @
     '' not registered''"

definition from_onnx_bytes_missing :: string where
  "from_onnx_bytes_missing =
     ''Cannot import ONNX model from file because'' @
     '' `pyxir.onnx.from_onnx_bytes` opaque function is'' @
     '' not registered''"

text \<open>\<open>import_onnx_model(const std::string &file_path)\<close>, onnx.cpp lines 28 to 45.\<close>

definition import_onnx_model :: "string \<Rightarrow> process \<Rightarrow> (error + XGraphHolder) \<times> process" where
  "import_onnx_model file_path p =
     (case OpaqueFuncRegistry_Exists from_onnx_key p of
        (False, p1) \<Rightarrow> (Inl (RuntimeError from_onnx_missing), p1)
      | (True, p1) \<Rightarrow>
          (case make_shared_XGraph ''empty_onnx_model'' p1 of
             (xg, p2) \<Rightarrow>
               (case OpaqueFuncRegistry_Get from_onnx_key p2 of
                  (Inl e, p3) \<Rightarrow> (Inl e, p3)
                | (Inr from_onnx, p3) \<Rightarrow>
                    (case invoke from_onnx_key from_onnx [OpaqueXGraph xg, OpaqueStr file_path] p3 of
                       (Inl e, p4) \<Rightarrow> (Inl e, p4)
                     | (Inr u, p4) \<Rightarrow> (Inr xg, p4)))))"

text \<open>
  A \<open>std::istringstream\<close>: the underlying character buffer and the read position.
  \<open>str()\<close> returns a copy of the whole buffer, whatever the read position.
\<close>

record istringstream =
  buffer :: string
  gpos :: nat

definition str :: "istringstream \<Rightarrow> string" where
  "str s = buffer s"

text \<open>\<open>import_onnx_model(std::istringstream &sstream)\<close>, onnx.cpp lines 48 to 66.\<close>

definition import_onnx_model_stream :: "istringstream \<Rightarrow> process \<Rightarrow> (error + XGraphHolder) \<times> process" where
  "import_onnx_model_stream sstream p =
     (case OpaqueFuncRegistry_Exists from_onnx_bytes_key p of
        (False, p1) \<Rightarrow> (Inl (RuntimeError from_onnx_bytes_missing), p1)
      | (True, p1) \<Rightarrow>
          (case make_shared_XGraph ''empty_onnx_model'' p1 of
             (xg, p2) \<Rightarrow>
               (case OpaqueFuncRegistry_Get from_onnx_bytes_key p2 of
                  (Inl e, p3) \<Rightarrow> (Inl e, p3)
                | (Inr from_onnx, p3) \<Rightarrow>
                    (let bytes = str sstream in
                     case invoke from_onnx_bytes_key from_onnx [OpaqueXGraph xg, OpaqueStr bytes] p3 of
                       (Inl e, p4) \<Rightarrow> (Inl e, p4)
                     | (Inr u, p4) \<Rightarrow> (Inr xg, p4)))))"

subsection \<open>Reading the call log, and sample processes\<close>

text \<open>The invocations of opaque functions recorded in a call log, in order.\<close>

definition invocations :: "event list \<Rightarrow> event list" where
  "invocations es = filter (\<lambda>e. case e of Invoke k args \<Rightarrow> True | _ \<Rightarrow> False) es"

text \<open>
  A sample importer: it expects a graph handle and a string, and populates the graph
  in place, naming it after the source. Any other argument list is a contract
  violation on the callee's side.
\<close>

definition sample_importer :: OpaqueFunc where
  "sample_importer args g =
     (case args of
        [OpaqueXGraph h, OpaqueStr s] \<Rightarrow>
          (if h < length g then Inr (g[h := (g ! h)\<lparr>name := s, layers := [s]\<rparr>])
           else Inl (InvocationError ''no such graph''))
      | _ \<Rightarrow> Inl (InvocationError ''bad arguments''))"

text \<open>A process in which both import keys are registered, and one with an empty registry.\<close>

definition sample_process :: process where
  "sample_process =
     \<lparr>opaque_funcs = [from_onnx_key \<mapsto> sample_importer, from_onnx_bytes_key \<mapsto> sample_importer],
      graphs = [], calls = []\<rparr>"

definition empty_process :: process where
  "empty_process = \<lparr>opaque_funcs = Map.empty, graphs = [], calls = []\<rparr>"

section \<open>The runtime module factory (include/pyxir/runtime/runtime_module_factory.hpp)\<close>

subsection \<open>The factory object\<close>

text \<open>
  A \<open>RuntimeModuleFactoryImpl\<close> is used through one capability: building a runtime
  module from (graph, target, input tensor names, output tensor names, run options).
  The run options type \<open>'ro\<close> and the runtime module type \<open>'m\<close> are declared in
  headers that are not among the sources, so they are type parameters. A
  \<open>RunOptionsHolder\<close> is a shared pointer; \<open>None\<close> is \<open>nullptr\<close>. Construction by
  the backend may fail.
\<close>

type_synonym ('ro, 'm) RuntimeModuleFactoryImpl =
  "XGraphHolder \<Rightarrow> string \<Rightarrow> string list \<Rightarrow> string list \<Rightarrow> 'ro option \<Rightarrow> error + 'm"

text \<open>
  A \<open>RuntimeModuleFactoryImplHolder\<close> is a \<open>std::unique_ptr\<close>; \<open>None\<close> is the null holder.
  The private members of the C++ classes end in an underscore, which an Isabelle
  name cannot: a member \<open>x_\<close> of the source is the field \<open>x_mem\<close> here.
\<close>

type_synonym ('ro, 'm) RuntimeModuleFactoryImplHolder =
  "('ro, 'm) RuntimeModuleFactoryImpl option"

record ('ro, 'm) RuntimeModuleFactory =
  runtime_mem :: string
  impl_mem :: "('ro, 'm) RuntimeModuleFactoryImplHolder"

text \<open>The constructor (line 38) sets the name; the holder member starts out null.\<close>

definition RuntimeModuleFactory_new :: "string \<Rightarrow> ('ro, 'm) RuntimeModuleFactory" where
  "RuntimeModuleFactory_new runtime = \<lparr>runtime_mem = runtime, impl_mem = None\<rparr>"

text \<open>
  The three overloads of \<open>set_impl\<close> (lines 40 to 56). Each returns \<open>*this\<close>, here the
  updated object. The overload taking the holder by reference moves out of the
  caller's holder, which is null afterwards: it is returned as second component.
\<close>

definition set_impl_ref ::
  "('ro, 'm) RuntimeModuleFactoryImplHolder \<Rightarrow> ('ro, 'm) RuntimeModuleFactory \<Rightarrow>
   ('ro, 'm) RuntimeModuleFactory \<times> ('ro, 'm) RuntimeModuleFactoryImplHolder" where
  "set_impl_ref impl this = (this\<lparr>impl_mem := impl\<rparr>, None)"

definition set_impl ::
  "('ro, 'm) RuntimeModuleFactoryImplHolder \<Rightarrow> ('ro, 'm) RuntimeModuleFactory \<Rightarrow>
   ('ro, 'm) RuntimeModuleFactory" where
  "set_impl impl this = this\<lparr>impl_mem := impl\<rparr>"

definition set_impl_ptr ::
  "('ro, 'm) RuntimeModuleFactoryImpl option \<Rightarrow> ('ro, 'm) RuntimeModuleFactory \<Rightarrow>
   ('ro, 'm) RuntimeModuleFactory" where
  "set_impl_ptr impl this = this\<lparr>impl_mem := impl\<rparr>"

definition get_impl ::
  "('ro, 'm) RuntimeModuleFactory \<Rightarrow> ('ro, 'm) RuntimeModuleFactoryImplHolder" where
  "get_impl this = impl_mem this"

subsection \<open>The compute function factory, as far as \<open>set_compute_impl\<close> uses it\<close>

text \<open>
  Modelled from the spec: \<open>ComputeFuncFactory::RegisterImpl\<close> and the
  \<open>set_impl\<close> of the factory it returns (compute_func_factory.hpp is not among the
  sources). \<open>RegisterImpl\<close> gets or creates the slot of a runtime name and returns a
  handle on it, here the name under which the slot is stored; \<open>set_impl\<close> on that
  handle installs the implementation, superseding the previous one. The
  implementation type \<open>'c\<close> is a parameter; the argument of \<open>set_impl\<close> is a raw
  pointer, \<open>None\<close> when null.
\<close>

record 'c ComputeFuncFactory =
  cf_impl_mem :: "'c option"

type_synonym 'c ComputeFuncFactoryRegistry = "string \<rightharpoonup> 'c ComputeFuncFactory"

definition ComputeFuncFactory_RegisterImpl ::
  "string \<Rightarrow> 'c ComputeFuncFactoryRegistry \<Rightarrow> string \<times> 'c ComputeFuncFactoryRegistry" where
  "ComputeFuncFactory_RegisterImpl runtime reg =
     (case reg runtime of
        None \<Rightarrow> (runtime, reg(runtime \<mapsto> \<lparr>cf_impl_mem = None\<rparr>))
      | Some f \<Rightarrow> (runtime, reg))"

definition ComputeFuncFactory_set_impl ::
  "string \<Rightarrow> 'c option \<Rightarrow> 'c ComputeFuncFactoryRegistry \<Rightarrow> 'c ComputeFuncFactoryRegistry" where
  "ComputeFuncFactory_set_impl slot compute_impl reg =
     (case reg slot of
        None \<Rightarrow> reg
      | Some f \<Rightarrow> reg(slot \<mapsto> f\<lparr>cf_impl_mem := compute_impl\<rparr>))"

definition ComputeFuncFactory_impl_of :: "'c ComputeFuncFactoryRegistry \<Rightarrow> string \<Rightarrow> 'c option" where
  "ComputeFuncFactory_impl_of reg runtime =
     (case reg runtime of None \<Rightarrow> None | Some f \<Rightarrow> cf_impl_mem f)"

text \<open>
  \<open>set_compute_impl\<close> (lines 60 to 66): registers the compute implementation under
  this factory's own runtime name and returns \<open>*this\<close>, which it does not change.
\<close>

definition set_compute_impl ::
  "'c option \<Rightarrow> ('ro, 'm) RuntimeModuleFactory \<Rightarrow> 'c ComputeFuncFactoryRegistry \<Rightarrow>
   ('ro, 'm) RuntimeModuleFactory \<times> 'c ComputeFuncFactoryRegistry" where
  "set_compute_impl compute_impl this reg =
     (case ComputeFuncFactory_RegisterImpl (runtime_mem this) reg of
        (slot, reg1) \<Rightarrow> (this, ComputeFuncFactory_set_impl slot compute_impl reg1))"

subsection \<open>The manager and the static entry points\<close>

text \<open>
  Modelled from the spec: \<open>RuntimeModuleFactory::Manager\<close> and the static functions
  \<open>RegisterImpl\<close>, \<open>Exists\<close> and \<open>GetRuntimeModule\<close>, which the header only declares
  (their definitions are not among the sources). The manager owns the process-wide
  map from runtime name to factory. A factory is an object with an identity: the
  map holds the address of each factory, an index into the list of factory objects
  created so far, and a \<open>RuntimeModuleFactory &\<close> is such an address.
\<close>

record ('ro, 'm) Manager =
  factories_mem :: "string \<rightharpoonup> nat"
  objects :: "('ro, 'm) RuntimeModuleFactory list"

definition Manager_init :: "('ro, 'm) Manager" where
  "Manager_init = \<lparr>factories_mem = Map.empty, objects = []\<rparr>"

text \<open>
  \<open>GetFactory\<close>, get-or-create: if no entry exists, a new factory with no
  implementation is created and inserted; the reference to the entry is returned.
\<close>

definition Manager_GetFactory ::
  "string \<Rightarrow> ('ro, 'm) Manager \<Rightarrow> nat \<times> ('ro, 'm) Manager" where
  "Manager_GetFactory runtime m =
     (case factories_mem m runtime of
        Some a \<Rightarrow> (a, m)
      | None \<Rightarrow>
          (length (objects m),
           m\<lparr>factories_mem := (factories_mem m)(runtime \<mapsto> length (objects m)),
             objects := objects m @ [RuntimeModuleFactory_new runtime]\<rparr>))"

definition Manager_Exists :: "string \<Rightarrow> ('ro, 'm) Manager \<Rightarrow> bool" where
  "Manager_Exists runtime m = (factories_mem m runtime \<noteq> None)"

definition RegisterImpl :: "string \<Rightarrow> ('ro, 'm) Manager \<Rightarrow> nat \<times> ('ro, 'm) Manager" where
  "RegisterImpl runtime m = Manager_GetFactory runtime m"

definition RuntimeModuleFactory_Exists :: "string \<Rightarrow> ('ro, 'm) Manager \<Rightarrow> bool" where
  "RuntimeModuleFactory_Exists runtime m = Manager_Exists runtime m"

text \<open>
  Calling \<open>set_impl\<close> through a reference: the object at that address is updated.
  \<open>get_impl\<close> through a reference reads it; a dangling reference reads a null holder.
\<close>

definition set_impl_at ::
  "nat \<Rightarrow> ('ro, 'm) RuntimeModuleFactoryImplHolder \<Rightarrow> ('ro, 'm) Manager \<Rightarrow> ('ro, 'm) Manager" where
  "set_impl_at a impl m =
     (if a < length (objects m)
      then m\<lparr>objects := (objects m)[a := set_impl impl (objects m ! a)]\<rparr>
      else m)"

definition get_impl_at ::
  "nat \<Rightarrow> ('ro, 'm) Manager \<Rightarrow> ('ro, 'm) RuntimeModuleFactoryImplHolder" where
  "get_impl_at a m = (if a < length (objects m) then get_impl (objects m ! a) else None)"

text \<open>
  \<open>GetRuntimeModule\<close>: looks up the factory for the runtime name, fails with
  \<open>UnknownRuntime\<close> if absent, then delegates to its installed implementation,
  passing the run options on unmodified. The spec does not say what happens when
  the factory exists but holds no implementation; that case is the separate error
  \<open>NullImpl\<close> here and no theorem below depends on it.
\<close>

definition GetRuntimeModule ::
  "XGraphHolder \<Rightarrow> string \<Rightarrow> string list \<Rightarrow> string list \<Rightarrow> string \<Rightarrow> 'ro option \<Rightarrow>
   ('ro, 'm) Manager \<Rightarrow> (error + 'm) \<times> ('ro, 'm) Manager" where
  "GetRuntimeModule xg target in_tensor_names out_tensor_names runtime run_options m =
     (if \<not> RuntimeModuleFactory_Exists runtime m
      then (Inl (UnknownRuntime runtime), m)
      else
        (case Manager_GetFactory runtime m of
           (a, m1) \<Rightarrow>
             (case get_impl_at a m1 of
                None \<Rightarrow> (Inl (NullImpl runtime), m1)
              | Some impl \<Rightarrow>
                  (impl xg target in_tensor_names out_tensor_names run_options, m1))))"

text \<open>The declaration's default argument (line 100): \<open>run_options = nullptr\<close>.\<close>

definition GetRuntimeModule_default ::
  "XGraphHolder \<Rightarrow> string \<Rightarrow> string list \<Rightarrow> string list \<Rightarrow> string \<Rightarrow>
   ('ro, 'm) Manager \<Rightarrow> (error + 'm) \<times> ('ro, 'm) Manager" where
  "GetRuntimeModule_default xg target in_tensor_names out_tensor_names runtime m =
     GetRuntimeModule xg target in_tensor_names out_tensor_names runtime None m"

text \<open>
  What a process can do to the registry over its lifetime: any sequence of get-or-create
  calls, of \<open>set_impl\<close> calls through a reference, and of module requests.
\<close>

datatype ('ro, 'm) registry_op =
    Op_RegisterImpl string
  | Op_GetFactory string
  | Op_set_impl nat "('ro, 'm) RuntimeModuleFactoryImplHolder"
  | Op_GetRuntimeModule XGraphHolder string "string list" "string list" string "'ro option"

fun registry_step :: "('ro, 'm) registry_op \<Rightarrow> ('ro, 'm) Manager \<Rightarrow> ('ro, 'm) Manager" where
  "registry_step (Op_RegisterImpl r) m = snd (RegisterImpl r m)"
| "registry_step (Op_GetFactory r) m = snd (Manager_GetFactory r m)"
| "registry_step (Op_set_impl a impl) m = set_impl_at a impl m"
| "registry_step (Op_GetRuntimeModule xg t ins outs r ro) m =
     snd (GetRuntimeModule xg t ins outs r ro m)"

fun registry_run :: "('ro, 'm) registry_op list \<Rightarrow> ('ro, 'm) Manager \<Rightarrow> ('ro, 'm) Manager" where
  "registry_run [] m = m"
| "registry_run (x # xs) m = registry_run xs (registry_step x m)"

text \<open>
  The shape of a well-formed manager: every map entry points at a live factory
  carrying the entry's name, and every factory object is the one its name maps to.
\<close>

definition Manager_wf :: "('ro, 'm) Manager \<Rightarrow> bool" where
  "Manager_wf m \<longleftrightarrow>
     (\<forall>r a. factories_mem m r = Some a \<longrightarrow> a < length (objects m) \<and> runtime_mem (objects m ! a) = r) \<and>
     (\<forall>a < length (objects m). factories_mem m (runtime_mem (objects m ! a)) = Some a)"

text \<open>The number of factory objects that exist for a runtime name.\<close>

definition factory_count :: "string \<Rightarrow> ('ro, 'm) Manager \<Rightarrow> nat" where
  "factory_count r m = length (filter (\<lambda>f. runtime_mem f = r) (objects m))"

subsection \<open>Sample implementations and a sample registry\<close>

text \<open>
  A stub implementation that records the arguments it is constructed with (the
  module it builds is the tuple of its arguments), one whose construction always
  fails, and the registry of a process that has registered the runtime \<open>cpu\<close> with
  the recording stub.
\<close>

definition recording_impl ::
  "(bool, XGraphHolder \<times> string \<times> string list \<times> string list \<times> bool option) RuntimeModuleFactoryImpl" where
  "recording_impl xg target ins outs ro = Inr (xg, target, ins, outs, ro)"

definition failing_impl ::
  "(bool, XGraphHolder \<times> string \<times> string list \<times> string list \<times> bool option) RuntimeModuleFactoryImpl" where
  "failing_impl xg target ins outs ro = Inl (ConstructionFailure target)"

definition cpu_manager ::
  "(bool, XGraphHolder \<times> string \<times> string list \<times> string list \<times> bool option) Manager" where
  "cpu_manager =
     (case RegisterImpl ''cpu'' Manager_init of
        (a, m) \<Rightarrow> set_impl_at a (Some recording_impl) m)"

section \<open>The Vitis AI compute function (src/pyxir/runtime/backends/vai_rt/vai_compute_func.hpp)\<close>

text \<open>
  The members of \<open>VaiComputeFunc\<close> that do not belong to the DPU runner library.
  The unordered set of supported operation types is a set of strings.
\<close>

record VaiComputeFunc =
  xg_mem :: XGraphHolder
  target_mem :: string
  in_tensor_names_mem :: "string list"
  out_tensor_names_mem :: "string list"
  supported_ops_mem :: "string set"

text \<open>
  The constructor is only declared (line 39); its body is not among the sources.
  The members are taken from the arguments of the same name, and \<open>supported_ops_mem\<close>
  from its default member initialiser (lines 69 and 70).
\<close>

definition VaiComputeFunc_new ::
  "XGraphHolder \<Rightarrow> string \<Rightarrow> string list \<Rightarrow> string list \<Rightarrow> VaiComputeFunc" where
  "VaiComputeFunc_new xg target in_tensor_names out_tensor_names =
     \<lparr>xg_mem = xg, target_mem = target,
      in_tensor_names_mem = in_tensor_names, out_tensor_names_mem = out_tensor_names,
      supported_ops_mem = {''Input'', ''Output'', ''DPUV1'', ''TupleGetItem''}\<rparr>"

text \<open>\<open>is_op_supported\<close> (lines 47 to 50): \<open>find\<close> differs from \<open>end\<close> iff the element is in the set.\<close>

definition is_op_supported :: "VaiComputeFunc \<Rightarrow> string \<Rightarrow> bool" where
  "is_op_supported this op_type \<longleftrightarrow> op_type \<in> supported_ops_mem this"

text \<open>
  Modelled from the spec: \<open>VaiComputeFunc::operator()\<close>, which the header only
  declares (lines 44 and 45; its definition is not among the sources). The compute
  function validates that the buffer counts match the lengths of the tensor name
  lists it was constructed with, failing with \<open>ArityMismatch\<close> otherwise; else it
  executes the compiled subgraph, which writes the output buffers in place. The
  execution itself is the parameter \<open>exec\<close>, from input and output buffers to the
  output buffers afterwards. The object is returned as it was.
\<close>

definition VaiComputeFunc_call ::
  "('b list \<Rightarrow> 'b list \<Rightarrow> error + 'b list) \<Rightarrow> VaiComputeFunc \<Rightarrow> 'b list \<Rightarrow> 'b list \<Rightarrow>
   (error + 'b list) \<times> VaiComputeFunc" where
  "VaiComputeFunc_call exec this in_tensors out_tensors =
     (if length in_tensors \<noteq> length (in_tensor_names_mem this)
         \<or> length out_tensors \<noteq> length (out_tensor_names_mem this)
      then (Inl ArityMismatch, this)
      else (exec in_tensors out_tensors, this))"

text \<open>The public operations on a constructed compute function, and the object after each.\<close>

datatype 'b vai_op = Op_call "'b list" "'b list" | Op_is_op_supported string

fun vai_step ::
  "('b list \<Rightarrow> 'b list \<Rightarrow> error + 'b list) \<Rightarrow> 'b vai_op \<Rightarrow> VaiComputeFunc \<Rightarrow> VaiComputeFunc" where
  "vai_step exec (Op_call ins outs) this = snd (VaiComputeFunc_call exec this ins outs)"
| "vai_step exec (Op_is_op_supported t) this = this"

fun vai_run ::
  "('b list \<Rightarrow> 'b list \<Rightarrow> error + 'b list) \<Rightarrow> 'b vai_op list \<Rightarrow> VaiComputeFunc \<Rightarrow> VaiComputeFunc" where
  "vai_run exec [] this = this"
| "vai_run exec (x # xs) this = vai_run exec xs (vai_step exec x this)"

section \<open>Properties of the ONNX frontend\<close>

lemma import_onnx_model_unregistered:
  assumes "opaque_funcs p from_onnx_key = None"
  shows "import_onnx_model file_path p =
           (Inl (RuntimeError from_onnx_missing), log_call (Exists_call from_onnx_key) p)"
  using assms by (simp add: import_onnx_model_def OpaqueFuncRegistry_Exists_def)

lemma import_onnx_model_stream_unregistered:
  assumes "opaque_funcs p from_onnx_bytes_key = None"
  shows "import_onnx_model_stream sstream p =
           (Inl (RuntimeError from_onnx_bytes_missing), log_call (Exists_call from_onnx_bytes_key) p)"
  using assms by (simp add: import_onnx_model_stream_def OpaqueFuncRegistry_Exists_def)

lemma missing_messages_descriptive:
  "suffix ''not registered'' from_onnx_missing"
  "suffix ''not registered'' from_onnx_bytes_missing"
  by (simp_all add: from_onnx_missing_def from_onnx_bytes_missing_def suffix_def)

text \<open>
  Claim C6. When the key an import entry point needs (\<open>pyxir.onnx.from_onnx\<close> for the
  file path overload, \<open>pyxir.onnx.from_onnx_bytes\<close> for the stream overload) is not
  registered, the entry point raises a runtime error whose message ends in
  "not registered", and the only collaborator call it has made is the \<open>Exists\<close>
  check: no \<open>Get\<close>, no graph construction, no invocation, and the graph objects and
  the registry are as before.
\<close>

theorem import_unregistered_reports_error:
  "(opaque_funcs p from_onnx_key = None \<longrightarrow>
      import_onnx_model file_path p =
        (Inl (RuntimeError from_onnx_missing), p\<lparr>calls := calls p @ [Exists_call from_onnx_key]\<rparr>))
   \<and> (opaque_funcs p from_onnx_bytes_key = None \<longrightarrow>
      import_onnx_model_stream sstream p =
        (Inl (RuntimeError from_onnx_bytes_missing),
         p\<lparr>calls := calls p @ [Exists_call from_onnx_bytes_key]\<rparr>))
   \<and> suffix ''not registered'' from_onnx_missing
   \<and> suffix ''not registered'' from_onnx_bytes_missing
   \<and> from_onnx_key = ''pyxir.onnx.from_onnx''
   \<and> from_onnx_bytes_key = ''pyxir.onnx.from_onnx_bytes''"
  using import_onnx_model_unregistered [of p file_path]
    import_onnx_model_stream_unregistered [of p sstream]
    missing_messages_descriptive
  by (simp add: log_call_def from_onnx_key_def from_onnx_bytes_key_def)

theorem import_unregistered_reports_error_witness:
  "opaque_funcs empty_process from_onnx_key = None
   \<and> opaque_funcs empty_process from_onnx_bytes_key = None
   \<and> import_onnx_model ''model.onnx'' empty_process =
       (Inl (RuntimeError
          ''Cannot import ONNX model from file because `pyxir.onnx.from_onnx` opaque function is not registered''),
        \<lparr>opaque_funcs = Map.empty, graphs = [], calls = [Exists_call ''pyxir.onnx.from_onnx'']\<rparr>)
   \<and> import_onnx_model_stream \<lparr>buffer = ''abc'', gpos = 1\<rparr> empty_process =
       (Inl (RuntimeError
          ''Cannot import ONNX model from file because `pyxir.onnx.from_onnx_bytes` opaque function is not registered''),
        \<lparr>opaque_funcs = Map.empty, graphs = [], calls = [Exists_call ''pyxir.onnx.from_onnx_bytes'']\<rparr>)"
  using import_unregistered_reports_error [of empty_process "''model.onnx''" "\<lparr>buffer = ''abc'', gpos = 1\<rparr>"]
  by (simp add: empty_process_def from_onnx_missing_def from_onnx_bytes_missing_def)

lemma import_onnx_model_registered:
  assumes "opaque_funcs p from_onnx_key = Some f"
  shows "import_onnx_model file_path p =
     (case f [OpaqueXGraph (length (graphs p)), OpaqueStr file_path]
             (graphs p @ [XGraph_new ''empty_onnx_model'']) of
        Inl e \<Rightarrow>
          (Inl e, p\<lparr>graphs := graphs p @ [XGraph_new ''empty_onnx_model''],
                    calls := calls p @
                      [Exists_call from_onnx_key,
                       Make_shared (length (graphs p)) ''empty_onnx_model'',
                       Get_call from_onnx_key,
                       Invoke from_onnx_key [OpaqueXGraph (length (graphs p)), OpaqueStr file_path]]\<rparr>)
      | Inr g \<Rightarrow>
          (Inr (length (graphs p)),
           p\<lparr>graphs := g,
             calls := calls p @
                      [Exists_call from_onnx_key,
                       Make_shared (length (graphs p)) ''empty_onnx_model'',
                       Get_call from_onnx_key,
                       Invoke from_onnx_key [OpaqueXGraph (length (graphs p)), OpaqueStr file_path]]\<rparr>))"
  using assms
  by (simp add: import_onnx_model_def OpaqueFuncRegistry_Exists_def make_shared_XGraph_def
      OpaqueFuncRegistry_Get_def invoke_def log_call_def split: sum.splits)

lemma import_onnx_model_stream_registered:
  assumes "opaque_funcs p from_onnx_bytes_key = Some f"
  shows "import_onnx_model_stream sstream p =
     (case f [OpaqueXGraph (length (graphs p)), OpaqueStr (buffer sstream)]
             (graphs p @ [XGraph_new ''empty_onnx_model'']) of
        Inl e \<Rightarrow>
          (Inl e, p\<lparr>graphs := graphs p @ [XGraph_new ''empty_onnx_model''],
                    calls := calls p @
                      [Exists_call from_onnx_bytes_key,
                       Make_shared (length (graphs p)) ''empty_onnx_model'',
                       Get_call from_onnx_bytes_key,
                       Invoke from_onnx_bytes_key [OpaqueXGraph (length (graphs p)), OpaqueStr (buffer sstream)]]\<rparr>)
      | Inr g \<Rightarrow>
          (Inr (length (graphs p)),
           p\<lparr>graphs := g,
             calls := calls p @
                      [Exists_call from_onnx_bytes_key,
                       Make_shared (length (graphs p)) ''empty_onnx_model'',
                       Get_call from_onnx_bytes_key,
                       Invoke from_onnx_bytes_key [OpaqueXGraph (length (graphs p)), OpaqueStr (buffer sstream)]]\<rparr>))"
  using assms
  by (simp add: import_onnx_model_stream_def OpaqueFuncRegistry_Exists_def make_shared_XGraph_def
      OpaqueFuncRegistry_Get_def invoke_def log_call_def str_def split: sum.splits)


lemma invocations_append: "invocations (xs @ ys) = invocations xs @ invocations ys"
  by (simp add: invocations_def)

text \<open>
  Claim C7. When the key is registered, each import entry point invokes the
  registered callable exactly once, with the argument pair (graph handle, source):
  the source is the file path for the file path overload and the whole buffer of
  the stream, whatever its read position, for the stream overload. When the
  callable returns normally the entry point returns that graph handle and the
  graph objects are as the callable left them; an exception of the callable
  propagates to the caller.
\<close>

theorem import_invokes_callable_once:
  "(opaque_funcs p from_onnx_key = Some f \<longrightarrow>
      (let xg = length (graphs p);
           args = [OpaqueXGraph xg, OpaqueStr file_path];
           res = import_onnx_model file_path p
       in invocations (calls (snd res)) = invocations (calls p) @ [Invoke from_onnx_key args]
          \<and> (\<forall>g. f args (graphs p @ [XGraph_new ''empty_onnx_model'']) = Inr g \<longrightarrow>
                 fst res = Inr xg \<and> graphs (snd res) = g)
          \<and> (\<forall>e. f args (graphs p @ [XGraph_new ''empty_onnx_model'']) = Inl e \<longrightarrow>
                 fst res = Inl e)))
   \<and> (opaque_funcs p from_onnx_bytes_key = Some f' \<longrightarrow>
      (let xg = length (graphs p);
           args = [OpaqueXGraph xg, OpaqueStr (buffer sstream)];
           res = import_onnx_model_stream sstream p
       in invocations (calls (snd res)) = invocations (calls p) @ [Invoke from_onnx_bytes_key args]
          \<and> (\<forall>g. f' args (graphs p @ [XGraph_new ''empty_onnx_model'']) = Inr g \<longrightarrow>
                 fst res = Inr xg \<and> graphs (snd res) = g)
          \<and> (\<forall>e. f' args (graphs p @ [XGraph_new ''empty_onnx_model'']) = Inl e \<longrightarrow>
                 fst res = Inl e)))"
proof (intro conjI impI)
  assume reg: "opaque_funcs p from_onnx_key = Some f"
  show "let xg = length (graphs p);
           args = [OpaqueXGraph xg, OpaqueStr file_path];
           res = import_onnx_model file_path p
       in invocations (calls (snd res)) = invocations (calls p) @ [Invoke from_onnx_key args]
          \<and> (\<forall>g. f args (graphs p @ [XGraph_new ''empty_onnx_model'']) = Inr g \<longrightarrow>
                 fst res = Inr xg \<and> graphs (snd res) = g)
          \<and> (\<forall>e. f args (graphs p @ [XGraph_new ''empty_onnx_model'']) = Inl e \<longrightarrow>
                 fst res = Inl e)"
    unfolding Let_def import_onnx_model_registered [OF reg]
    by (simp add: invocations_append split: sum.splits) (simp add: invocations_def)
next
  assume reg: "opaque_funcs p from_onnx_bytes_key = Some f'"
  show "let xg = length (graphs p);
           args = [OpaqueXGraph xg, OpaqueStr (buffer sstream)];
           res = import_onnx_model_stream sstream p
       in invocations (calls (snd res)) = invocations (calls p) @ [Invoke from_onnx_bytes_key args]
          \<and> (\<forall>g. f' args (graphs p @ [XGraph_new ''empty_onnx_model'']) = Inr g \<longrightarrow>
                 fst res = Inr xg \<and> graphs (snd res) = g)
          \<and> (\<forall>e. f' args (graphs p @ [XGraph_new ''empty_onnx_model'']) = Inl e \<longrightarrow>
                 fst res = Inl e)"
    unfolding Let_def import_onnx_model_stream_registered [OF reg]
    by (simp add: invocations_append split: sum.splits) (simp add: invocations_def)
qed

lemma sample_importer_new:
  "sample_importer [OpaqueXGraph 0, OpaqueStr s] [XGraph_new n] = Inr [\<lparr>name = s, layers = [s]\<rparr>]"
  by (simp add: sample_importer_def XGraph_new_def)

theorem import_invokes_callable_once_witness:
  "opaque_funcs sample_process from_onnx_key = Some sample_importer
   \<and> opaque_funcs sample_process from_onnx_bytes_key = Some sample_importer
   \<and> invocations (calls (snd (import_onnx_model ''model.onnx'' sample_process))) =
       [Invoke ''pyxir.onnx.from_onnx'' [OpaqueXGraph 0, OpaqueStr ''model.onnx'']]
   \<and> fst (import_onnx_model ''model.onnx'' sample_process) = Inr 0
   \<and> graphs (snd (import_onnx_model ''model.onnx'' sample_process)) =
       [\<lparr>name = ''model.onnx'', layers = [''model.onnx'']\<rparr>]
   \<and> invocations (calls (snd (import_onnx_model_stream \<lparr>buffer = ''abc'', gpos = 1\<rparr> sample_process))) =
       [Invoke ''pyxir.onnx.from_onnx_bytes'' [OpaqueXGraph 0, OpaqueStr ''abc'']]
   \<and> fst (import_onnx_model_stream \<lparr>buffer = ''abc'', gpos = 1\<rparr> sample_process) = Inr 0
   \<and> graphs (snd (import_onnx_model_stream \<lparr>buffer = ''abc'', gpos = 1\<rparr> sample_process)) =
       [\<lparr>name = ''abc'', layers = [''abc'']\<rparr>]"
proof -
  have k: "from_onnx_key \<noteq> from_onnx_bytes_key"
    by (simp add: from_onnx_key_def from_onnx_bytes_key_def)
  have r1: "opaque_funcs sample_process from_onnx_key = Some sample_importer"
    using k by (simp add: sample_process_def)
  have r2: "opaque_funcs sample_process from_onnx_bytes_key = Some sample_importer"
    by (simp add: sample_process_def)
  have g: "graphs sample_process = []" "calls sample_process = []"
    by (simp_all add: sample_process_def)
  show ?thesis
    using import_invokes_callable_once [of sample_process sample_importer "''model.onnx''" sample_importer
        "\<lparr>buffer = ''abc'', gpos = 1\<rparr>"] r1 r2
    by (simp add: g Let_def sample_importer_new invocations_def
        from_onnx_key_def from_onnx_bytes_key_def)
qed

text \<open>
  Claim C10. On every successful call of either import entry point, the handle
  returned is the handle of a graph object that did not exist before the call, was
  constructed with the name \<open>empty_onnx_model\<close> before the importer ran, and is the
  very handle passed as first argument to the registered callable, whose result is
  the state of the graph objects on return. The collaborator calls are, in order:
  \<open>Exists\<close>, the construction of the graph, \<open>Get\<close>, the invocation.
\<close>

theorem import_returns_handle_given_to_importer:
  "(import_onnx_model file_path p = (Inr h, p') \<longrightarrow>
      h = length (graphs p)
      \<and> name ((graphs p @ [XGraph_new ''empty_onnx_model'']) ! h) = ''empty_onnx_model''
      \<and> (\<exists>f. opaque_funcs p from_onnx_key = Some f
             \<and> f [OpaqueXGraph h, OpaqueStr file_path]
                  (graphs p @ [XGraph_new ''empty_onnx_model'']) = Inr (graphs p'))
      \<and> calls p' = calls p @
           [Exists_call from_onnx_key, Make_shared h ''empty_onnx_model'',
            Get_call from_onnx_key, Invoke from_onnx_key [OpaqueXGraph h, OpaqueStr file_path]])
   \<and> (import_onnx_model_stream sstream p = (Inr h', p'') \<longrightarrow>
      h' = length (graphs p)
      \<and> name ((graphs p @ [XGraph_new ''empty_onnx_model'']) ! h') = ''empty_onnx_model''
      \<and> (\<exists>f. opaque_funcs p from_onnx_bytes_key = Some f
             \<and> f [OpaqueXGraph h', OpaqueStr (buffer sstream)]
                  (graphs p @ [XGraph_new ''empty_onnx_model'']) = Inr (graphs p''))
      \<and> calls p'' = calls p @
           [Exists_call from_onnx_bytes_key, Make_shared h' ''empty_onnx_model'',
            Get_call from_onnx_bytes_key,
            Invoke from_onnx_bytes_key [OpaqueXGraph h', OpaqueStr (buffer sstream)]])"
proof (intro conjI impI)
  assume ok: "import_onnx_model file_path p = (Inr h, p')"
  then obtain f where reg: "opaque_funcs p from_onnx_key = Some f"
    by (cases "opaque_funcs p from_onnx_key") (auto simp: import_onnx_model_unregistered)
  from ok show "h = length (graphs p)"
    unfolding import_onnx_model_registered [OF reg] by (auto split: sum.splits)
  then show "name ((graphs p @ [XGraph_new ''empty_onnx_model'']) ! h) = ''empty_onnx_model''"
    by (simp add: XGraph_new_def)
  from ok show "\<exists>f. opaque_funcs p from_onnx_key = Some f
             \<and> f [OpaqueXGraph h, OpaqueStr file_path]
                  (graphs p @ [XGraph_new ''empty_onnx_model'']) = Inr (graphs p')"
    unfolding import_onnx_model_registered [OF reg] using reg by (auto split: sum.splits)
  from ok show "calls p' = calls p @
           [Exists_call from_onnx_key, Make_shared h ''empty_onnx_model'',
            Get_call from_onnx_key, Invoke from_onnx_key [OpaqueXGraph h, OpaqueStr file_path]]"
    unfolding import_onnx_model_registered [OF reg] by (auto split: sum.splits)
next
  assume ok: "import_onnx_model_stream sstream p = (Inr h', p'')"
  then obtain f where reg: "opaque_funcs p from_onnx_bytes_key = Some f"
    by (cases "opaque_funcs p from_onnx_bytes_key") (auto simp: import_onnx_model_stream_unregistered)
  from ok show "h' = length (graphs p)"
    unfolding import_onnx_model_stream_registered [OF reg] by (auto split: sum.splits)
  then show "name ((graphs p @ [XGraph_new ''empty_onnx_model'']) ! h') = ''empty_onnx_model''"
    by (simp add: XGraph_new_def)
  from ok show "\<exists>f. opaque_funcs p from_onnx_bytes_key = Some f
             \<and> f [OpaqueXGraph h', OpaqueStr (buffer sstream)]
                  (graphs p @ [XGraph_new ''empty_onnx_model'']) = Inr (graphs p'')"
    unfolding import_onnx_model_stream_registered [OF reg] using reg by (auto split: sum.splits)
  from ok show "calls p'' = calls p @
           [Exists_call from_onnx_bytes_key, Make_shared h' ''empty_onnx_model'',
            Get_call from_onnx_bytes_key,
            Invoke from_onnx_bytes_key [OpaqueXGraph h', OpaqueStr (buffer sstream)]]"
    unfolding import_onnx_model_stream_registered [OF reg] by (auto split: sum.splits)
qed

theorem import_returns_handle_given_to_importer_witness:
  "import_onnx_model ''model.onnx'' sample_process =
     (Inr 0,
      sample_process\<lparr>graphs := [\<lparr>name = ''model.onnx'', layers = [''model.onnx'']\<rparr>],
        calls := [Exists_call from_onnx_key, Make_shared 0 ''empty_onnx_model'',
                  Get_call from_onnx_key,
                  Invoke from_onnx_key [OpaqueXGraph 0, OpaqueStr ''model.onnx'']]\<rparr>)
   \<and> import_onnx_model_stream \<lparr>buffer = ''abc'', gpos = 1\<rparr> sample_process =
     (Inr 0,
      sample_process\<lparr>graphs := [\<lparr>name = ''abc'', layers = [''abc'']\<rparr>],
        calls := [Exists_call from_onnx_bytes_key, Make_shared 0 ''empty_onnx_model'',
                  Get_call from_onnx_bytes_key,
                  Invoke from_onnx_bytes_key [OpaqueXGraph 0, OpaqueStr ''abc'']]\<rparr>)
   \<and> name ([XGraph_new ''empty_onnx_model''] ! 0) = ''empty_onnx_model''
   \<and> (\<exists>f. opaque_funcs sample_process from_onnx_key = Some f
          \<and> f [OpaqueXGraph 0, OpaqueStr ''model.onnx''] [XGraph_new ''empty_onnx_model''] =
              Inr [\<lparr>name = ''model.onnx'', layers = [''model.onnx'']\<rparr>])
   \<and> (\<exists>f. opaque_funcs sample_process from_onnx_bytes_key = Some f
          \<and> f [OpaqueXGraph 0, OpaqueStr ''abc''] [XGraph_new ''empty_onnx_model''] =
              Inr [\<lparr>name = ''abc'', layers = [''abc'']\<rparr>])"
proof -
  let ?p1 = "sample_process\<lparr>graphs := [\<lparr>name = ''model.onnx'', layers = [''model.onnx'']\<rparr>],
        calls := [Exists_call from_onnx_key, Make_shared 0 ''empty_onnx_model'',
                  Get_call from_onnx_key,
                  Invoke from_onnx_key [OpaqueXGraph 0, OpaqueStr ''model.onnx'']]\<rparr>"
  let ?p2 = "sample_process\<lparr>graphs := [\<lparr>name = ''abc'', layers = [''abc'']\<rparr>],
        calls := [Exists_call from_onnx_bytes_key, Make_shared 0 ''empty_onnx_model'',
                  Get_call from_onnx_bytes_key,
                  Invoke from_onnx_bytes_key [OpaqueXGraph 0, OpaqueStr ''abc'']]\<rparr>"
  have k: "from_onnx_key \<noteq> from_onnx_bytes_key"
    by (simp add: from_onnx_key_def from_onnx_bytes_key_def)
  have r1: "opaque_funcs sample_process from_onnx_key = Some sample_importer"
    using k by (simp add: sample_process_def)
  have r2: "opaque_funcs sample_process from_onnx_bytes_key = Some sample_importer"
    by (simp add: sample_process_def)
  have g: "graphs sample_process = []" "calls sample_process = []"
    by (simp_all add: sample_process_def)
  have h1: "import_onnx_model ''model.onnx'' sample_process = (Inr 0, ?p1)"
    by (simp add: import_onnx_model_registered [OF r1] g sample_importer_new)
  have h2: "import_onnx_model_stream \<lparr>buffer = ''abc'', gpos = 1\<rparr> sample_process = (Inr 0, ?p2)"
    by (simp add: import_onnx_model_stream_registered [OF r2] g sample_importer_new)
  show ?thesis
    using import_returns_handle_given_to_importer
      [of "''model.onnx''" sample_process 0 ?p1 "\<lparr>buffer = ''abc'', gpos = 1\<rparr>" 0 ?p2] h1 h2
    by (simp add: g)
qed

section \<open>Properties of the runtime module factory and of the compute function\<close>

lemma Manager_wf_init: "Manager_wf Manager_init"
  by (simp add: Manager_wf_def Manager_init_def)

lemma Manager_GetFactory_wf:
  assumes "Manager_wf m"
  shows "Manager_wf (snd (Manager_GetFactory r m))"
proof (cases "factories_mem m r")
  case (Some a)
  with assms show ?thesis by (simp add: Manager_GetFactory_def)
next
  case None
  have fresh: "runtime_mem (objects m ! a) \<noteq> r" if "a < length (objects m)" for a
    using assms that None unfolding Manager_wf_def by (metis option.distinct(1))
  show ?thesis
    using assms None fresh
    by (auto simp: Manager_GetFactory_def Manager_wf_def nth_append RuntimeModuleFactory_new_def
        less_Suc_eq)
qed

lemma set_impl_runtime [simp]: "runtime_mem (set_impl impl this) = runtime_mem this"
  by (simp add: set_impl_def)

lemma set_impl_at_wf:
  assumes "Manager_wf m"
  shows "Manager_wf (set_impl_at a impl m)"
  using assms by (auto simp: set_impl_at_def Manager_wf_def nth_list_update)

lemma GetRuntimeModule_state [simp]:
  "snd (GetRuntimeModule xg t ins outs r ro m) = m"
  by (auto simp: GetRuntimeModule_def RuntimeModuleFactory_Exists_def Manager_Exists_def
      Manager_GetFactory_def split: option.splits)

lemma registry_step_wf: "Manager_wf m \<Longrightarrow> Manager_wf (registry_step x m)"
  by (cases x) (simp_all add: RegisterImpl_def Manager_GetFactory_wf set_impl_at_wf)

lemma registry_run_wf: "Manager_wf m \<Longrightarrow> Manager_wf (registry_run xs m)"
  by (induction xs arbitrary: m) (simp_all add: registry_step_wf)

lemma Manager_wf_distinct:
  assumes "Manager_wf m"
  shows "distinct (map runtime_mem (objects m))"
  unfolding distinct_conv_nth
proof (intro allI impI)
  fix i j
  assume "i < length (map runtime_mem (objects m))" "j < length (map runtime_mem (objects m))" "i \<noteq> j"
  then show "map runtime_mem (objects m) ! i \<noteq> map runtime_mem (objects m) ! j"
    using assms unfolding Manager_wf_def by (metis length_map nth_map option.inject)
qed

lemma Manager_wf_count:
  assumes "Manager_wf m"
  shows "factory_count r m \<le> 1"
proof -
  have "factory_count r m = length (filter (\<lambda>x. x = r) (map runtime_mem (objects m)))"
    by (simp add: factory_count_def filter_map comp_def)
  also have "\<dots> = card ({x. x = r} \<inter> set (map runtime_mem (objects m)))"
    using Manager_wf_distinct [OF assms] by (rule distinct_length_filter)
  also have "\<dots> \<le> card {r}"
    by (intro card_mono) auto
  finally show ?thesis by simp
qed

lemma Manager_wf_count_registered:
  assumes "Manager_wf m" "factories_mem m r = Some a"
  shows "factory_count r m = 1"
proof -
  have "objects m ! a \<in> set (filter (\<lambda>f. runtime_mem f = r) (objects m))"
    using assms unfolding Manager_wf_def by (simp add: nth_mem)
  then have "0 < factory_count r m"
    unfolding factory_count_def by (metis length_pos_if_in_set)
  with Manager_wf_count [OF assms(1), of r] show ?thesis by simp
qed

lemma Manager_GetFactory_registered:
  "factories_mem (snd (Manager_GetFactory r m)) r = Some (fst (Manager_GetFactory r m))"
  by (simp add: Manager_GetFactory_def split: option.splits)

lemma Manager_GetFactory_keeps:
  "factories_mem m r = Some a \<Longrightarrow> factories_mem (snd (Manager_GetFactory r' m)) r = Some a"
  by (auto simp: Manager_GetFactory_def split: option.splits)

lemma set_impl_at_factories [simp]: "factories_mem (set_impl_at a impl m) = factories_mem m"
  by (simp add: set_impl_at_def)

lemma registry_step_keeps:
  "factories_mem m r = Some a \<Longrightarrow> factories_mem (registry_step x m) r = Some a"
  by (cases x) (simp_all add: RegisterImpl_def Manager_GetFactory_keeps)

lemma registry_run_keeps:
  "factories_mem m r = Some a \<Longrightarrow> factories_mem (registry_run xs m) r = Some a"
  by (induction xs arbitrary: m) (simp_all add: registry_step_keeps)

lemma Manager_GetFactory_known:
  "factories_mem m r = Some a \<Longrightarrow> Manager_GetFactory r m = (a, m)"
  by (simp add: Manager_GetFactory_def)


text \<open>
  Claim C1. For a runtime name with no entry in the registry map, \<open>Exists\<close> is
  false and \<open>GetRuntimeModule\<close>, with or without run options, fails with
  \<open>UnknownRuntime\<close>: the result is the error, not a module, and the registry
  after the call is the registry before it, so no entry was created.
\<close>

theorem GetRuntimeModule_unknown_runtime:
  "factories_mem m runtime = None \<longrightarrow>
     \<not> RuntimeModuleFactory_Exists runtime m
     \<and> GetRuntimeModule xg target ins outs runtime ro m = (Inl (UnknownRuntime runtime), m)
     \<and> GetRuntimeModule_default xg target ins outs runtime m = (Inl (UnknownRuntime runtime), m)"
  by (simp add: GetRuntimeModule_def GetRuntimeModule_default_def RuntimeModuleFactory_Exists_def
      Manager_Exists_def)

lemma cpu_manager_eq:
  "cpu_manager = \<lparr>factories_mem = [''cpu'' \<mapsto> 0],
                   objects = [\<lparr>runtime_mem = ''cpu'', impl_mem = Some recording_impl\<rparr>]\<rparr>"
  by (simp add: cpu_manager_def RegisterImpl_def Manager_GetFactory_def Manager_init_def
      set_impl_at_def set_impl_def RuntimeModuleFactory_new_def)

theorem GetRuntimeModule_unknown_runtime_witness:
  "factories_mem cpu_manager ''x'' = None
   \<and> \<not> RuntimeModuleFactory_Exists ''x'' cpu_manager
   \<and> GetRuntimeModule 0 ''t'' [''a''] [''b''] ''x'' (Some True) cpu_manager =
       (Inl (UnknownRuntime ''x''), cpu_manager)
   \<and> GetRuntimeModule_default 0 ''t'' [''a''] [''b''] ''x'' cpu_manager =
       (Inl (UnknownRuntime ''x''), cpu_manager)"
  using GetRuntimeModule_unknown_runtime [of cpu_manager "''x''" 0 "''t''" "[''a'']" "[''b'']" "Some True"]
  by (simp add: cpu_manager_eq)

lemma GetRuntimeModule_installed:
  assumes "factories_mem m runtime = Some a" "get_impl_at a m = Some impl"
  shows "GetRuntimeModule xg target ins outs runtime ro m = (impl xg target ins outs ro, m)"
  using assms
  by (simp add: GetRuntimeModule_def RuntimeModuleFactory_Exists_def Manager_Exists_def
      Manager_GetFactory_def)

text \<open>
  Claim C4. For a registered runtime name whose factory holds an implementation,
  \<open>GetRuntimeModule\<close> returns what the implementation builds from exactly (graph,
  target, input tensor names, output tensor names, run options), with the run
  options as given, and leaves the registry unchanged; when the run options are
  omitted the implementation receives the null (absent) run options.
\<close>

theorem GetRuntimeModule_passes_arguments:
  "factories_mem m runtime = Some a \<and> get_impl_at a m = Some impl \<longrightarrow>
     GetRuntimeModule xg target ins outs runtime ro m = (impl xg target ins outs ro, m)
     \<and> GetRuntimeModule_default xg target ins outs runtime m = (impl xg target ins outs None, m)"
  by (simp add: GetRuntimeModule_installed GetRuntimeModule_default_def)

theorem GetRuntimeModule_passes_arguments_witness:
  "factories_mem cpu_manager ''cpu'' = Some 0
   \<and> get_impl_at 0 cpu_manager = Some recording_impl
   \<and> GetRuntimeModule 7 ''t'' [''a''] [''b''] ''cpu'' (Some True) cpu_manager =
       (Inr (7, ''t'', [''a''], [''b''], Some True), cpu_manager)
   \<and> GetRuntimeModule_default 7 ''t'' [''a''] [''b''] ''cpu'' cpu_manager =
       (Inr (7, ''t'', [''a''], [''b''], None), cpu_manager)"
proof -
  have h: "factories_mem cpu_manager ''cpu'' = Some 0" "get_impl_at 0 cpu_manager = Some recording_impl"
    by (simp_all add: cpu_manager_eq get_impl_at_def get_impl_def)
  show ?thesis
    using GetRuntimeModule_passes_arguments [of cpu_manager "''cpu''" 0 recording_impl 7 "''t''" "[''a'']" "[''b'']" "Some True"] h
    by (simp add: recording_impl_def)
qed

lemma set_impl_at_get:
  "a < length (objects m) \<Longrightarrow> get_impl_at a (set_impl_at a impl m) = impl"
  by (simp add: set_impl_at_def get_impl_at_def get_impl_def set_impl_def)

lemma set_impl_at_length [simp]: "length (objects (set_impl_at a impl m)) = length (objects m)"
  by (simp add: set_impl_at_def)

lemma set_impl_at_twice:
  "set_impl_at a B (set_impl_at a A m) = set_impl_at a B m"
  by (simp add: set_impl_at_def set_impl_def)

lemma Manager_GetFactory_valid:
  assumes "Manager_wf m"
  shows "fst (Manager_GetFactory r m) < length (objects (snd (Manager_GetFactory r m)))"
  using Manager_GetFactory_wf [OF assms, of r] Manager_GetFactory_registered [of r m]
  unfolding Manager_wf_def by blast

text \<open>
  Claim C2. Installing implementation A and then implementation B leaves B as the
  implementation of the factory, through each overload of \<open>set_impl\<close>, and the
  factory is the one that installing B alone gives: nothing of A remains. In a
  well-formed registry, after installing A then B through the reference returned
  by \<open>RegisterImpl\<close> for a name, \<open>get_impl\<close> yields B and \<open>GetRuntimeModule\<close> for
  that name returns what B builds from the arguments.
\<close>

theorem set_impl_last_write_wins:
  "get_impl (set_impl (Some B) (set_impl (Some A) this)) = Some B
   \<and> set_impl (Some B) (set_impl (Some A) this) = set_impl (Some B) this
   \<and> get_impl (set_impl_ptr (Some B) (set_impl_ptr (Some A) this)) = Some B
   \<and> get_impl (fst (set_impl_ref (Some B) (fst (set_impl_ref (Some A) this)))) = Some B
   \<and> (Manager_wf m \<longrightarrow>
        (case RegisterImpl runtime m of
           (a, m1) \<Rightarrow>
             (let m3 = set_impl_at a (Some B) (set_impl_at a (Some A) m1)
              in get_impl_at a m3 = Some B
                 \<and> GetRuntimeModule xg target ins outs runtime ro m3 =
                     (B xg target ins outs ro, m3))))"
proof (intro conjI impI)
  assume wf: "Manager_wf m"
  obtain a m1 where r: "Manager_GetFactory runtime m = (a, m1)"
    by (cases "Manager_GetFactory runtime m")
  from Manager_GetFactory_valid [OF wf, of runtime] r have v: "a < length (objects m1)"
    by simp
  from Manager_GetFactory_registered [of runtime m] r have f: "factories_mem m1 runtime = Some a"
    by simp
  have g: "get_impl_at a (set_impl_at a (Some B) m1) = Some B"
    using v by (rule set_impl_at_get)
  have "GetRuntimeModule xg target ins outs runtime ro (set_impl_at a (Some B) m1) =
          (B xg target ins outs ro, set_impl_at a (Some B) m1)"
    using f g by (intro GetRuntimeModule_installed) simp_all
  with g show "case RegisterImpl runtime m of
           (a, m1) \<Rightarrow>
             (let m3 = set_impl_at a (Some B) (set_impl_at a (Some A) m1)
              in get_impl_at a m3 = Some B
                 \<and> GetRuntimeModule xg target ins outs runtime ro m3 =
                     (B xg target ins outs ro, m3))"
    by (simp add: RegisterImpl_def r set_impl_at_twice)
qed (simp_all add: get_impl_def set_impl_def set_impl_ptr_def set_impl_ref_def)

theorem set_impl_last_write_wins_witness:
  "Manager_wf (Manager_init :: (bool, XGraphHolder \<times> string \<times> string list \<times> string list \<times> bool option) Manager)
   \<and> get_impl_at 0 (set_impl_at 0 (Some recording_impl)
        (set_impl_at 0 (Some failing_impl) (snd (RegisterImpl ''cpu'' Manager_init)))) =
       Some recording_impl
   \<and> fst (GetRuntimeModule 7 ''t'' [''a''] [''b''] ''cpu'' None
        (set_impl_at 0 (Some recording_impl)
          (set_impl_at 0 (Some failing_impl) (snd (RegisterImpl ''cpu'' Manager_init))))) =
       Inr (7, ''t'', [''a''], [''b''], None)"
proof -
  have r: "RegisterImpl ''cpu'' (Manager_init :: (bool, XGraphHolder \<times> string \<times> string list \<times> string list \<times> bool option) Manager) =
      (0, \<lparr>factories_mem = [''cpu'' \<mapsto> 0], objects = [RuntimeModuleFactory_new ''cpu'']\<rparr>)"
    by (simp add: RegisterImpl_def Manager_GetFactory_def Manager_init_def)
  have wf0: "Manager_wf (Manager_init :: (bool, XGraphHolder \<times> string \<times> string list \<times> string list \<times> bool option) Manager)"
    by (rule Manager_wf_init)
  show ?thesis
    using set_impl_last_write_wins [where A = failing_impl and B = recording_impl and this = "RuntimeModuleFactory_new ''cpu''"
        and m = Manager_init and runtime = "''cpu''" and xg = 7 and target = "''t''"
        and ins = "[''a'']" and outs = "[''b'']" and ro = None] wf0
    by (simp add: r Let_def recording_impl_def)
qed


text \<open>
  Claim C3. In the registry reached by any sequence of operations from the empty
  one, \<open>RegisterImpl\<close> for a name, followed by any further operations, followed by
  \<open>RegisterImpl\<close> for the same name, returns the same factory reference both
  times; the second call changes nothing, the manager's \<open>GetFactory\<close> returns that
  reference too, the object referred to carries the name, and there is exactly one
  factory object for that name and at most one for any name.
\<close>

theorem RegisterImpl_same_factory:
  "(case RegisterImpl runtime (registry_run before (Manager_init :: ('ro, 'm) Manager)) of
      (a, m1) \<Rightarrow>
        (case RegisterImpl runtime (registry_run between m1) of
           (b, m2) \<Rightarrow>
             b = a
             \<and> m2 = registry_run between m1
             \<and> Manager_GetFactory runtime m2 = (a, m2)
             \<and> a < length (objects m2)
             \<and> runtime_mem (objects m2 ! a) = runtime
             \<and> factory_count runtime m2 = 1
             \<and> (\<forall>r. factory_count r m2 \<le> 1)))"
proof -
  let ?m = "registry_run before (Manager_init :: ('ro, 'm) Manager)"
  obtain a m1 where r: "Manager_GetFactory runtime ?m = (a, m1)"
    by (cases "Manager_GetFactory runtime ?m")
  let ?m2 = "registry_run between m1"
  have wf: "Manager_wf ?m"
    by (intro registry_run_wf Manager_wf_init)
  from Manager_GetFactory_wf [OF wf, of runtime] r have wf1: "Manager_wf m1"
    by simp
  then have wf2: "Manager_wf ?m2"
    by (rule registry_run_wf)
  from Manager_GetFactory_registered [of runtime ?m] r have "factories_mem m1 runtime = Some a"
    by simp
  then have f2: "factories_mem ?m2 runtime = Some a"
    by (rule registry_run_keeps)
  then have g2: "Manager_GetFactory runtime ?m2 = (a, ?m2)"
    by (rule Manager_GetFactory_known)
  have v: "a < length (objects ?m2)" "runtime_mem (objects ?m2 ! a) = runtime"
    using wf2 f2 unfolding Manager_wf_def by blast+
  have c1: "factory_count runtime ?m2 = 1"
    using wf2 f2 by (rule Manager_wf_count_registered)
  have c2: "\<forall>r. factory_count r ?m2 \<le> 1"
    using Manager_wf_count [OF wf2] by blast
  show ?thesis
    using g2 v c1 c2 by (simp add: RegisterImpl_def r)
qed

theorem RegisterImpl_same_factory_witness:
  "RegisterImpl ''cpu'' (Manager_init :: (bool, nat) Manager) =
     (0, \<lparr>factories_mem = [''cpu'' \<mapsto> 0], objects = [RuntimeModuleFactory_new ''cpu'']\<rparr>)
   \<and> RegisterImpl ''cpu''
       (\<lparr>factories_mem = [''cpu'' \<mapsto> 0], objects = [RuntimeModuleFactory_new ''cpu'']\<rparr> :: (bool, nat) Manager) =
     (0, \<lparr>factories_mem = [''cpu'' \<mapsto> 0], objects = [RuntimeModuleFactory_new ''cpu'']\<rparr>)
   \<and> factory_count ''cpu''
       (\<lparr>factories_mem = [''cpu'' \<mapsto> 0], objects = [RuntimeModuleFactory_new ''cpu'']\<rparr> :: (bool, nat) Manager) = 1"
proof -
  have r: "RegisterImpl ''cpu'' (Manager_init :: (bool, nat) Manager) =
     (0, \<lparr>factories_mem = [''cpu'' \<mapsto> 0], objects = [RuntimeModuleFactory_new ''cpu'']\<rparr>)"
    by (simp add: RegisterImpl_def Manager_GetFactory_def Manager_init_def)
  show ?thesis
    using RegisterImpl_same_factory [where runtime = "''cpu''" and before = "[] :: (bool, nat) registry_op list"
        and between = "[]"]
    by (simp add: r split: prod.splits)
qed

lemma set_compute_impl_eq:
  "set_compute_impl c this reg = (this, reg(runtime_mem this \<mapsto> \<lparr>cf_impl_mem = c\<rparr>))"
proof (cases "reg (runtime_mem this)")
  case None
  then show ?thesis
    by (simp add: set_compute_impl_def ComputeFuncFactory_RegisterImpl_def
        ComputeFuncFactory_set_impl_def)
next
  case (Some f)
  then show ?thesis
    by (cases f)
      (simp add: set_compute_impl_def ComputeFuncFactory_RegisterImpl_def
        ComputeFuncFactory_set_impl_def)
qed

text \<open>
  Claim C5. A factory created for runtime name \<open>r\<close> carries that name, and
  \<open>set_compute_impl c\<close> on a factory carrying the name \<open>r\<close> returns the same,
  unchanged factory and leaves the compute function factory registry with \<open>c\<close>
  registered under \<open>r\<close> and every other name as it was.
\<close>

theorem set_compute_impl_same_runtime:
  "runtime_mem (RuntimeModuleFactory_new r) = r
   \<and> (runtime_mem this = r \<longrightarrow>
        (case set_compute_impl c this reg of
           (this', reg') \<Rightarrow>
             this' = this
             \<and> reg' r = Some \<lparr>cf_impl_mem = c\<rparr>
             \<and> ComputeFuncFactory_impl_of reg' r = c
             \<and> (\<forall>r'. r' \<noteq> r \<longrightarrow> reg' r' = reg r')))"
  by (simp add: set_compute_impl_eq ComputeFuncFactory_impl_of_def RuntimeModuleFactory_new_def)

theorem set_compute_impl_same_runtime_witness:
  "runtime_mem (RuntimeModuleFactory_new ''cpu'' :: (bool, nat) RuntimeModuleFactory) = ''cpu''
   \<and> fst (set_compute_impl (Some ''cpu compute'')
        (RuntimeModuleFactory_new ''cpu'' :: (bool, nat) RuntimeModuleFactory) Map.empty) =
       RuntimeModuleFactory_new ''cpu''
   \<and> ComputeFuncFactory_impl_of (snd (set_compute_impl (Some ''cpu compute'')
        (RuntimeModuleFactory_new ''cpu'' :: (bool, nat) RuntimeModuleFactory) Map.empty)) ''cpu'' =
       Some ''cpu compute''
   \<and> snd (set_compute_impl (Some ''cpu compute'')
        (RuntimeModuleFactory_new ''cpu'' :: (bool, nat) RuntimeModuleFactory) Map.empty) ''dpu'' = None"
  using set_compute_impl_same_runtime [where r = "''cpu''" and this = "RuntimeModuleFactory_new ''cpu'' :: (bool, nat) RuntimeModuleFactory"
      and c = "Some ''cpu compute''" and reg = Map.empty]
  by (auto simp: split_beta)

text \<open>
  Claim C8. A compute function constructed with input tensor names \<open>I\<close> and output
  tensor names \<open>O\<close>, invoked with a number of input buffers other than the length
  of \<open>I\<close> or a number of output buffers other than the length of \<open>O\<close>, fails with
  \<open>ArityMismatch\<close> whatever the execution of the subgraph would do, and the object
  is unchanged.
\<close>

theorem VaiComputeFunc_call_arity_mismatch:
  "length in_tensors \<noteq> length in_tensor_names \<or> length out_tensors \<noteq> length out_tensor_names \<longrightarrow>
     VaiComputeFunc_call exec (VaiComputeFunc_new xg target in_tensor_names out_tensor_names)
       in_tensors out_tensors =
     (Inl ArityMismatch, VaiComputeFunc_new xg target in_tensor_names out_tensor_names)"
  by (simp add: VaiComputeFunc_call_def VaiComputeFunc_new_def)

theorem VaiComputeFunc_call_arity_mismatch_witness:
  "length [1::nat, 2] \<noteq> length [''a'']
   \<and> VaiComputeFunc_call (\<lambda>ins outs. Inr ins) (VaiComputeFunc_new 0 ''dpuv1'' [''a''] [''b''])
       [1::nat, 2] [0] =
     (Inl ArityMismatch, VaiComputeFunc_new 0 ''dpuv1'' [''a''] [''b''])"
  using VaiComputeFunc_call_arity_mismatch [where in_tensors = "[1::nat, 2]" and in_tensor_names = "[''a'']" and out_tensors = "[0]"
      and out_tensor_names = "[''b'']" and exec = "\<lambda>ins outs. Inr ins" and xg = 0 and target = "''dpuv1''"]
  by simp

lemma vai_step_supported_ops [simp]:
  "supported_ops_mem (vai_step exec x this) = supported_ops_mem this"
  by (cases x) (simp_all add: VaiComputeFunc_call_def)

lemma vai_run_supported_ops [simp]:
  "supported_ops_mem (vai_run exec xs this) = supported_ops_mem this"
  by (induction xs arbitrary: this) simp_all

text \<open>
  Claim C9. On a newly constructed compute function \<open>is_op_supported t\<close> holds if
  and only if \<open>t\<close> is one of \<open>Input\<close>, \<open>Output\<close>, \<open>DPUV1\<close>, \<open>TupleGetItem\<close>, and
  no sequence of operations on an object changes its set of supported operations
  or the answer of \<open>is_op_supported\<close>.
\<close>

theorem is_op_supported_iff:
  "(is_op_supported (VaiComputeFunc_new xg target in_tensor_names out_tensor_names) t \<longleftrightarrow>
      t \<in> {''Input'', ''Output'', ''DPUV1'', ''TupleGetItem''})
   \<and> supported_ops_mem (vai_run exec ops this) = supported_ops_mem this
   \<and> is_op_supported (vai_run exec ops this) t = is_op_supported this t"
  by (simp add: is_op_supported_def VaiComputeFunc_new_def)

end
